theory Spec2Isabelle
  imports Main "HOL-Library.AList"
begin

section \<open>The cache manager of auth0-spa-js (src/cache/cache-manager.ts)\<close>

text \<open>
  A shallow embedding of the class \<open>CacheManager\<close>. Asynchronous calls are run to
  completion in the order the source issues them (a sequential backend), and the state
  the source mutates through \<open>this.cache\<close> is passed explicitly: every operation takes
  the manager and returns the updated one. The records of the backend are objects with
  an address, since \<open>get\<close> assigns to a field of a record it has read. The clock
  (\<open>Date.now()\<close>, milliseconds) and the constant \<open>CACHE_KEY_PREFIX\<close> of
  \<open>shared.ts\<close> are parameters (\<open>now_ms\<close>, \<open>pfx\<close>). JavaScript numbers that
  hold seconds are integers here.
\<close>

subsection \<open>String.prototype.split\<close>

text \<open>
  \<open>s.split(sep)\<close> for a separator that is not empty (the source splits on a blank, the
  key format on two colons): the leftmost occurrences of \<open>sep\<close> cut \<open>s\<close>, and the
  empty string splits into one empty piece.
\<close>

fun split_str :: "string \<Rightarrow> string \<Rightarrow> string list" where
  "split_str sep [] = [[]]"
| "split_str sep (c # cs) =
     (if sep \<noteq> [] \<and> take (length sep) (c # cs) = sep
      then [] # split_str sep (drop (length sep) (c # cs))
      else (case split_str sep cs of
              [] \<Rightarrow> [[c]]
            | w # ws \<Rightarrow> (c # w) # ws))"

subsection \<open>Cache keys\<close>

text \<open>
  \<open>CacheKey\<close> as its users in the source see it: four string fields. A key handed to
  \<open>get\<close> or built in \<open>set\<close> has all four.
\<close>

record CacheKey =
  key_prefix :: string
  key_client_id :: string
  key_audience :: string
  key_scope :: string

text \<open>
  What \<open>CacheKey.fromKey\<close> yields: the same four fields, each of which is undefined
  (\<open>None\<close>) when the key string has no such segment.
\<close>

record ParsedCacheKey =
  parsed_prefix :: "string option"
  parsed_client_id :: "string option"
  parsed_audience :: "string option"
  parsed_scope :: "string option"

text \<open>
  Modelled from the spec: \<open>new CacheKey(data)\<close> of \<open>shared.ts\<close>, which is not among
  the sources. The key takes the fixed constant as its prefix.
\<close>

definition new_CacheKey :: "string \<Rightarrow> string \<Rightarrow> string \<Rightarrow> string \<Rightarrow> CacheKey" where
  "new_CacheKey pfx cid sc aud =
     \<lparr>key_prefix = pfx, key_client_id = cid, key_audience = aud, key_scope = sc\<rparr>"

text \<open>
  Modelled from the spec: \<open>CacheKey.toKey\<close> of \<open>shared.ts\<close>, which is not among the
  sources. The wire format is \<open>prefix::client_id::audience::scope\<close>.
\<close>

definition toKey :: "CacheKey \<Rightarrow> string" where
  "toKey k = key_prefix k @ ''::'' @ key_client_id k @ ''::'' @ key_audience k @ ''::'' @ key_scope k"

definition nth_opt :: "'a list \<Rightarrow> nat \<Rightarrow> 'a option" where
  "nth_opt xs n = (if n < length xs then Some (xs ! n) else None)"

text \<open>
  Modelled from the spec: \<open>CacheKey.fromKey\<close> of \<open>shared.ts\<close>, which is not among the
  sources. The string is cut at the delimiter and the first four pieces are the fields in
  the order of the wire format; parsing is permissive, a missing piece leaves its field
  absent.
\<close>

definition fromKey :: "string \<Rightarrow> ParsedCacheKey" where
  "fromKey key =
     (let parts = split_str ''::'' key
      in \<lparr>parsed_prefix = nth_opt parts 0, parsed_client_id = nth_opt parts 1,
          parsed_audience = nth_opt parts 2, parsed_scope = nth_opt parts 3\<rparr>)"

subsection \<open>Entries\<close>

text \<open>
  \<open>CacheEntry\<close>: the fields the manager reads. \<open>claims_exp\<close> is
  \<open>decodedToken.claims.exp\<close>; \<open>refresh_token\<close> is optional.
\<close>

record CacheEntry =
  client_id :: string
  scope :: string
  audience :: string
  expires_in :: int
  claims_exp :: int
  refresh_token :: "string option"

text \<open>\<open>Partial<CacheEntry>\<close>, the type of a stored body: every field may be absent.\<close>

record PartialCacheEntry =
  body_client_id :: "string option"
  body_scope :: "string option"
  body_audience :: "string option"
  body_expires_in :: "int option"
  body_claims_exp :: "int option"
  body_refresh_token :: "string option"

text \<open>\<open>body: entry\<close>: a full entry used as a body.\<close>

definition as_body :: "CacheEntry \<Rightarrow> PartialCacheEntry" where
  "as_body e =
     \<lparr>body_client_id = Some (client_id e), body_scope = Some (scope e),
      body_audience = Some (audience e), body_expires_in = Some (expires_in e),
      body_claims_exp = Some (claims_exp e), body_refresh_token = refresh_token e\<rparr>"

text \<open>The object literal \<open>{ refresh_token: r }\<close>.\<close>

definition refresh_only :: "string \<Rightarrow> PartialCacheEntry" where
  "refresh_only r =
     \<lparr>body_client_id = None, body_scope = None, body_audience = None,
      body_expires_in = None, body_claims_exp = None, body_refresh_token = Some r\<rparr>"

record WrappedCacheEntry =
  body :: PartialCacheEntry
  expiresAt :: int

text \<open>
  JavaScript truthiness of an optional string, as in \<open>if (x)\<close> and \<open>x && y\<close>:
  undefined and the empty string are falsy. The result is the string when it is truthy.
\<close>

definition truthy :: "string option \<Rightarrow> string option" where
  "truthy x = (case x of None \<Rightarrow> None | Some s \<Rightarrow> if s = [] then None else Some s)"

subsection \<open>The storage backend\<close>

text \<open>
  What the backend holds under a key: a wrapped entry, or the record of the key manifest
  (an object with the one field \<open>keys\<close>).
\<close>

datatype stored = Wrapped WrappedCacheEntry | KeyManifestEntry "string list"

text \<open>
  Modelled from the spec: the storage backend behind the interface \<open>ICache\<close> of
  \<open>shared.ts\<close>, which is not among the sources. It is a key/value store with get, set
  and remove by key, and an optional enumeration \<open>allKeys\<close>; \<open>has_allKeys\<close> says
  whether the backend offers it. \<open>entries\<close> gives, in the order of the enumeration, the
  address of the record kept under each key, and \<open>objects\<close> the record at each address.

  The interface leaves open whether the store keeps the very object it is given and hands
  that object out again (a store in memory), or keeps and hands out copies (a store that
  serialises). \<open>shares\<close> tells the two apart; the manager works with either.
\<close>

record ICache =
  entries :: "(string \<times> nat) list"
  objects :: "(nat \<times> stored) list"
  has_allKeys :: bool
  shares :: bool

text \<open>\<open>get(key)\<close>: the record under the key, as a value.\<close>

definition cache_get :: "ICache \<Rightarrow> string \<Rightarrow> stored option" where
  "cache_get c k =
     (case map_of (entries c) k of
        None \<Rightarrow> None
      | Some a \<Rightarrow> map_of (objects c) a)"

text \<open>
  The address of the object that \<open>get(key)\<close> returns when that object is the stored one;
  \<open>None\<close> for a store that returns a copy.
\<close>

definition cache_get_ref :: "ICache \<Rightarrow> string \<Rightarrow> nat option" where
  "cache_get_ref c k = (if shares c then map_of (entries c) k else None)"

text \<open>
  What the manager holds after \<open>await this.cache.get(key)\<close>: the record, and its
  address in the store when the store handed out its own object.
\<close>

definition cache_get_object :: "ICache \<Rightarrow> string \<Rightarrow> (nat option \<times> stored) option" where
  "cache_get_object c k =
     (case cache_get c k of
        None \<Rightarrow> None
      | Some v \<Rightarrow> Some (cache_get_ref c k, v))"

text \<open>An address that no key and no object of the store uses.\<close>

definition fresh :: "ICache \<Rightarrow> nat" where
  "fresh c = Suc (fold max (map fst (objects c) @ map snd (entries c)) 0)"

text \<open>
  \<open>set(key, record)\<close> for a record the store does not hold yet (a new object, or any
  object handed to a store that copies): the record gets an address of its own.
\<close>

definition cache_set :: "ICache \<Rightarrow> string \<Rightarrow> stored \<Rightarrow> ICache" where
  "cache_set c k v =
     (let a = fresh c
      in c\<lparr>entries := AList.update k a (entries c), objects := AList.update a v (objects c)\<rparr>)"

text \<open>
  \<open>set(key, record)\<close> for the object at address \<open>a\<close>, which the store handed out
  itself: the key is bound to that same object.
\<close>

definition cache_set_ref :: "ICache \<Rightarrow> string \<Rightarrow> nat \<Rightarrow> ICache" where
  "cache_set_ref c k a = c\<lparr>entries := AList.update k a (entries c)\<rparr>"

text \<open>An assignment to a field of the stored object at address \<open>a\<close>, which becomes \<open>v\<close>.\<close>

definition assign_object :: "ICache \<Rightarrow> nat \<Rightarrow> stored \<Rightarrow> ICache" where
  "assign_object c a v = c\<lparr>objects := AList.update a v (objects c)\<rparr>"

definition cache_remove :: "ICache \<Rightarrow> string \<Rightarrow> ICache" where
  "cache_remove c k = c\<lparr>entries := AList.delete k (entries c)\<rparr>"

definition cache_allKeys :: "ICache \<Rightarrow> string list" where
  "cache_allKeys c = map fst (entries c)"

subsection \<open>The key manifest\<close>

text \<open>
  Modelled from the spec: the class \<open>CacheKeyManifest\<close> of \<open>key-manifest.ts\<close>, which is
  not among the sources. The manifest is one record of the backend it is bound to, under
  a key of its own (\<open>mk\<close>), holding the keys it tracks without repetition. \<open>get\<close> reads
  the record, \<open>add\<close> is an idempotent insert that creates the record when there is none,
  \<open>remove\<close> is an idempotent delete, \<open>clear\<close> deletes the record. \<open>add\<close> and
  \<open>remove\<close> write a new record.
\<close>

definition manifest_get :: "ICache \<Rightarrow> string \<Rightarrow> stored option" where
  "manifest_get c mk = cache_get c mk"

definition manifest_keys :: "ICache \<Rightarrow> string \<Rightarrow> string list" where
  "manifest_keys c mk =
     (case manifest_get c mk of Some (KeyManifestEntry ks) \<Rightarrow> ks | _ \<Rightarrow> [])"

definition manifest_add :: "ICache \<Rightarrow> string \<Rightarrow> string \<Rightarrow> ICache" where
  "manifest_add c mk key =
     (let ks = manifest_keys c mk
      in cache_set c mk (KeyManifestEntry (if key \<in> set ks then ks else ks @ [key])))"

definition manifest_remove :: "ICache \<Rightarrow> string \<Rightarrow> string \<Rightarrow> ICache" where
  "manifest_remove c mk key =
     (case manifest_get c mk of
        Some (KeyManifestEntry ks) \<Rightarrow> cache_set c mk (KeyManifestEntry (removeAll key ks))
      | _ \<Rightarrow> c)"

definition manifest_clear :: "ICache \<Rightarrow> string \<Rightarrow> ICache" where
  "manifest_clear c mk = cache_remove c mk"

subsection \<open>The manager\<close>

text \<open>
  The manager holds the backend and, when the backend cannot list its keys, a manifest;
  of the manifest the state is its storage key, the record itself lives in the backend.
\<close>

record CacheManager =
  cache :: ICache
  keyManifest :: "string option"

text \<open>
  The constructor. \<open>manifestKeyFrom\<close> stands for the manifest's derivation of its
  storage key from the client id (in \<open>key-manifest.ts\<close>, not among the sources).
\<close>

definition new_CacheManager :: "(string \<Rightarrow> string) \<Rightarrow> ICache \<Rightarrow> string \<Rightarrow> CacheManager" where
  "new_CacheManager manifestKeyFrom c clientId =
     \<lparr>cache = c,
      keyManifest = (if \<not> has_allKeys c then Some (manifestKeyFrom clientId) else None)\<rparr>"

text \<open>
  \<open>getCacheKeys\<close>: the manifest's keys when there is a manifest (undefined when its
  record is missing or has no field \<open>keys\<close>), the backend's own enumeration otherwise.
\<close>

definition getCacheKeys :: "CacheManager \<Rightarrow> string list option" where
  "getCacheKeys M =
     (case keyManifest M of
        Some mk \<Rightarrow>
          (case manifest_get (cache M) mk of
             Some (KeyManifestEntry ks) \<Rightarrow> Some ks
           | _ \<Rightarrow> None)
      | None \<Rightarrow> Some (cache_allKeys (cache M)))"

text \<open>
  \<open>new Set(cacheKey.scope && cacheKey.scope.split(' '))\<close>: the tokens of the parsed
  scope; the set is empty when the scope is undefined or the empty string.
\<close>

definition scopeSet :: "string option \<Rightarrow> string set" where
  "scopeSet sc = (case truthy sc of None \<Rightarrow> {} | Some s \<Rightarrow> set (split_str '' '' s))"

text \<open>
  The callback of \<open>allKeys.filter\<close> in \<open>matchExistingCacheKey\<close>; \<open>reduce\<close> is a left
  fold from \<open>true\<close>.
\<close>

definition key_matches :: "string \<Rightarrow> CacheKey \<Rightarrow> string \<Rightarrow> bool" where
  "key_matches pfx keyToMatch key =
     (let cacheKey = fromKey key;
          scopesToMatch = split_str '' '' (key_scope keyToMatch);
          hasAllScopes =
            (truthy (parsed_scope cacheKey) \<noteq> None \<and>
             foldl (\<lambda>acc current. acc \<and> current \<in> scopeSet (parsed_scope cacheKey))
               True scopesToMatch)
      in parsed_prefix cacheKey = Some pfx \<and>
         parsed_client_id cacheKey = Some (key_client_id keyToMatch) \<and>
         parsed_audience cacheKey = Some (key_audience keyToMatch) \<and>
         hasAllScopes)"

text \<open>\<open>allKeys.filter(...)\<close>: the keys that match, in the order of the enumeration.\<close>

definition matching_keys :: "string \<Rightarrow> CacheKey \<Rightarrow> string list \<Rightarrow> string list" where
  "matching_keys pfx keyToMatch allKeys = filter (key_matches pfx keyToMatch) allKeys"

text \<open>\<open>allKeys.filter(...)[0]\<close>: the first element, undefined when the list is empty.\<close>

definition matchExistingCacheKey :: "string \<Rightarrow> CacheKey \<Rightarrow> string list \<Rightarrow> string option" where
  "matchExistingCacheKey pfx keyToMatch allKeys =
     (case matching_keys pfx keyToMatch allKeys of
        [] \<Rightarrow> None
      | k # _ \<Rightarrow> Some k)"

text \<open>
  Lines 28 to 58 of \<open>get\<close>: the object the manager goes on with, \<open>None\<close> where the
  source returns early. The backend's \<open>get\<close> of an undefined key (no key matched) finds
  nothing: the spec has the undefined key treated as a miss.
\<close>

definition find_wrappedEntry :: "string \<Rightarrow> CacheManager \<Rightarrow> CacheKey \<Rightarrow>
    (nat option \<times> stored) option" where
  "find_wrappedEntry pfx M cacheKey =
     (case cache_get_object (cache M) (toKey cacheKey) of
        Some wrappedEntry \<Rightarrow> Some wrappedEntry
      | None \<Rightarrow>
          (case getCacheKeys M of
             None \<Rightarrow> None
           | Some keys \<Rightarrow>
               (case matchExistingCacheKey pfx cacheKey keys of
                  None \<Rightarrow> None
                | Some matchedKey \<Rightarrow> cache_get_object (cache M) matchedKey)))"

text \<open>\<open>this.keyManifest?.remove(key)\<close>.\<close>

definition keyManifest_remove :: "CacheManager \<Rightarrow> string \<Rightarrow> CacheManager" where
  "keyManifest_remove M key =
     (case keyManifest M of
        None \<Rightarrow> M
      | Some mk \<Rightarrow> M\<lparr>cache := manifest_remove (cache M) mk key\<rparr>)"

text \<open>
  Lines 67 to 87 of \<open>get\<close>, the branch of an expired entry; \<open>origin\<close> is the address
  of \<open>wrappedEntry\<close> when it is the store's own object. With a truthy refresh token,
  line 70 assigns the narrowed body to the field \<open>body\<close> of \<open>wrappedEntry\<close>, which
  changes the stored object if \<open>wrappedEntry\<close> is that object, and line 74 sets the
  object under the requested key. Any other entry is removed from the backend and from
  the manifest, under the requested key.
\<close>

definition get_expired :: "CacheManager \<Rightarrow> CacheKey \<Rightarrow> nat option \<Rightarrow> WrappedCacheEntry \<Rightarrow>
    PartialCacheEntry option \<times> CacheManager" where
  "get_expired M cacheKey origin wrappedEntry =
     (case truthy (body_refresh_token (body wrappedEntry)) of
        Some r \<Rightarrow>
          (let narrowed = wrappedEntry\<lparr>body := refresh_only r\<rparr>;
               assigned = (case origin of
                             None \<Rightarrow> cache M
                           | Some a \<Rightarrow> assign_object (cache M) a (Wrapped narrowed));
               written = (case origin of
                            None \<Rightarrow> cache_set assigned (toKey cacheKey) (Wrapped narrowed)
                          | Some a \<Rightarrow> cache_set_ref assigned (toKey cacheKey) a)
           in (Some (body narrowed), M\<lparr>cache := written\<rparr>))
      | None \<Rightarrow>
          (None,
           keyManifest_remove
             (M\<lparr>cache := cache_remove (cache M) (toKey cacheKey)\<rparr>) (toKey cacheKey)))"

text \<open>
  \<open>get\<close>; a call without the second argument passes 0 for it. A manifest record found
  under the key has no field \<open>expiresAt\<close>, so the comparison (with NaN) is false and
  its undefined \<open>body\<close> is returned.
\<close>

definition get :: "string \<Rightarrow> CacheManager \<Rightarrow> CacheKey \<Rightarrow> int \<Rightarrow> int \<Rightarrow>
    PartialCacheEntry option \<times> CacheManager" where
  "get pfx M cacheKey expiryAdjustmentSeconds now_ms =
     (case find_wrappedEntry pfx M cacheKey of
        None \<Rightarrow> (None, M)
      | Some (origin, KeyManifestEntry ks) \<Rightarrow> (None, M)
      | Some (origin, Wrapped wrappedEntry) \<Rightarrow>
          (let nowSeconds = now_ms div 1000
           in if expiresAt wrappedEntry - expiryAdjustmentSeconds < nowSeconds
              then get_expired M cacheKey origin wrappedEntry
              else (Some (body wrappedEntry), M)))"

definition wrapCacheEntry :: "int \<Rightarrow> CacheEntry \<Rightarrow> WrappedCacheEntry" where
  "wrapCacheEntry now_ms entry =
     (let expiresInTime = now_ms div 1000 + expires_in entry;
          expirySeconds = min expiresInTime (claims_exp entry)
      in \<lparr>body = as_body entry, expiresAt = expirySeconds\<rparr>)"

text \<open>\<open>this.keyManifest?.add(key)\<close>.\<close>

definition keyManifest_add :: "CacheManager \<Rightarrow> string \<Rightarrow> CacheManager" where
  "keyManifest_add M key =
     (case keyManifest M of
        None \<Rightarrow> M
      | Some mk \<Rightarrow> M\<lparr>cache := manifest_add (cache M) mk key\<rparr>)"

definition set_entry :: "string \<Rightarrow> CacheManager \<Rightarrow> CacheEntry \<Rightarrow> int \<Rightarrow> CacheManager" where
  "set_entry pfx M entry now_ms =
     (let cacheKey = new_CacheKey pfx (client_id entry) (scope entry) (audience entry);
          wrappedEntry = wrapCacheEntry now_ms entry
      in keyManifest_add
           (M\<lparr>cache := cache_set (cache M) (toKey cacheKey) (Wrapped wrappedEntry)\<rparr>)
           (toKey cacheKey))"

text \<open>\<open>this.keyManifest?.clear()\<close>.\<close>

definition keyManifest_clear :: "CacheManager \<Rightarrow> CacheManager" where
  "keyManifest_clear M =
     (case keyManifest M of
        None \<Rightarrow> M
      | Some mk \<Rightarrow> M\<lparr>cache := manifest_clear (cache M) mk\<rparr>)"

text \<open>
  \<open>clear\<close>: the removals are issued key by key in the order of the enumeration, then the
  manifest is cleared.
\<close>

definition clear :: "CacheManager \<Rightarrow> CacheManager" where
  "clear M =
     (case getCacheKeys M of
        None \<Rightarrow> M
      | Some keys \<Rightarrow>
          keyManifest_clear (M\<lparr>cache := foldl cache_remove (cache M) keys\<rparr>))"

text \<open>The keys the manifest tracks: those of its record, none without a manifest.\<close>

definition manifest_tracked :: "CacheManager \<Rightarrow> string set" where
  "manifest_tracked M =
     (case keyManifest M of
        None \<Rightarrow> {}
      | Some mk \<Rightarrow> set (manifest_keys (cache M) mk))"

subsection \<open>A worked state\<close>

text \<open>
  The state used in the examples: an entry for client \<open>c1\<close>, audience \<open>aud1\<close> and
  scope \<open>read write\<close>, stored by \<open>set\<close> at second 40 with a lifetime of 60 seconds
  into an empty backend, which is natively enumerable or not and shares its objects or
  not. The prefix and the manifest's key are sample values of the parameters.
\<close>

definition ex_manifestKeyFrom :: "string \<Rightarrow> string" where
  "ex_manifestKeyFrom clientId = ''@@auth0spajs@@::'' @ clientId"

definition ex_entry :: "string option \<Rightarrow> CacheEntry" where
  "ex_entry rt =
     \<lparr>client_id = ''c1'', scope = ''read write'', audience = ''aud1'',
      expires_in = 60, claims_exp = 100, refresh_token = rt\<rparr>"

definition ex_wrapped :: "string option \<Rightarrow> WrappedCacheEntry" where
  "ex_wrapped rt = wrapCacheEntry 40000 (ex_entry rt)"

definition ex_empty :: "bool \<Rightarrow> bool \<Rightarrow> CacheManager" where
  "ex_empty native sh =
     new_CacheManager ex_manifestKeyFrom
       \<lparr>entries = [], objects = [], has_allKeys = native, shares = sh\<rparr> ''c1''"

definition ex_stored :: "bool \<Rightarrow> bool \<Rightarrow> string option \<Rightarrow> CacheManager" where
  "ex_stored native sh rt = set_entry ''@@auth0spajs@@'' (ex_empty native sh) (ex_entry rt) 40000"

definition ex_request :: "string \<Rightarrow> CacheKey" where
  "ex_request sc = new_CacheKey ''@@auth0spajs@@'' ''c1'' sc ''aud1''"

text \<open>
  A second entry for the same client and audience, with scope \<open>read admin\<close>, stored at
  second 150 into the state above (manifest in use, no refresh token) and valid until
  second 1150.
\<close>

definition ex_entry_admin :: CacheEntry where
  "ex_entry_admin =
     \<lparr>client_id = ''c1'', scope = ''read admin'', audience = ''aud1'',
      expires_in = 1000, claims_exp = 5000, refresh_token = None\<rparr>"

definition ex_two_entries :: CacheManager where
  "ex_two_entries =
     set_entry ''@@auth0spajs@@'' (ex_stored False False None) ex_entry_admin 150000"

section \<open>Properties\<close>

subsection \<open>The backend and the manifest\<close>

lemma fold_max_ge: "m \<le> fold max xs (m::nat)"
  by (induction xs arbitrary: m) (auto intro: order_trans [OF max.cobounded2])

lemma fold_max_member: "x \<in> set xs \<Longrightarrow> x \<le> fold max xs (m::nat)"
proof (induction xs arbitrary: m)
  case Nil
  then show ?case by simp
next
  case (Cons y ys)
  show ?case
  proof (cases "x = y")
    case True
    have "y \<le> max y m" by simp
    also have "\<dots> \<le> fold max ys (max y m)" by (rule fold_max_ge)
    finally show ?thesis using True by simp
  next
    case False
    with Cons.prems have "x \<in> set ys" by simp
    then show ?thesis by (simp add: Cons.IH)
  qed
qed

lemma fresh_entries: "map_of (entries c) k = Some a \<Longrightarrow> a < fresh c"
proof -
  assume "map_of (entries c) k = Some a"
  then have "(k, a) \<in> set (entries c)" by (rule map_of_SomeD)
  then have "a \<in> set (map fst (objects c) @ map snd (entries c))" by force
  then have "a \<le> fold max (map fst (objects c) @ map snd (entries c)) 0"
    by (rule fold_max_member)
  then show ?thesis by (simp add: fresh_def)
qed

lemma cache_get_set [simp]:
  "cache_get (cache_set c k v) k' = (if k' = k then Some v else cache_get c k')"
proof (cases "k' = k")
  case True
  then show ?thesis by (simp add: cache_get_def cache_set_def Let_def update_conv')
next
  case False
  show ?thesis
  proof (cases "map_of (entries c) k'")
    case None
    with False show ?thesis by (simp add: cache_get_def cache_set_def Let_def update_conv')
  next
    case (Some a)
    then have "a \<noteq> fresh c" using fresh_entries [of c k' a] by simp
    with False Some show ?thesis
      by (simp add: cache_get_def cache_set_def Let_def update_conv')
  qed
qed

lemma cache_get_remove [simp]:
  "cache_get (cache_remove c k) k' = (if k' = k then None else cache_get c k')"
  by (simp add: cache_get_def cache_remove_def delete_conv' split: option.splits)

lemma cache_get_foldl_remove:
  "cache_get (foldl cache_remove c ks) k = (if k \<in> set ks then None else cache_get c k)"
  by (induction ks arbitrary: c) auto

lemma cache_get_assign_object:
  "cache_get (assign_object c a v) k =
     (if map_of (entries c) k = Some a then Some v else cache_get c k)"
  by (auto simp: cache_get_def assign_object_def update_conv' split: option.splits)

lemma cache_get_set_ref:
  "cache_get (cache_set_ref c k a) k' =
     (if k' = k then map_of (objects c) a else cache_get c k')"
  by (simp add: cache_get_def cache_set_ref_def update_conv' split: option.splits)

lemma shares_cache_set [simp]: "shares (cache_set c k v) = shares c"
  by (simp add: cache_set_def Let_def)

lemma shares_cache_remove [simp]: "shares (cache_remove c k) = shares c"
  by (simp add: cache_remove_def)

lemma cache_get_object_Some:
  "cache_get_object c k = Some (origin, v) \<longleftrightarrow>
     cache_get c k = Some v \<and> origin = cache_get_ref c k"
  by (auto simp: cache_get_object_def split: option.splits)

lemma cache_get_object_None: "cache_get c k = None \<Longrightarrow> cache_get_object c k = None"
  by (simp add: cache_get_object_def split: option.splits)

lemma foldl_conj: "foldl (\<lambda>acc x. acc \<and> P x) b xs = (b \<and> (\<forall>x \<in> set xs. P x))"
  by (induction xs arbitrary: b) auto

lemma split_str_not_Nil [simp]: "split_str sep s \<noteq> []"
  by (induction sep s rule: split_str.induct) (auto split: list.splits)

subsection \<open>Matching\<close>

lemma key_matches_unfold:
  "key_matches pfx keyToMatch key \<longleftrightarrow>
     parsed_prefix (fromKey key) = Some pfx \<and>
     parsed_client_id (fromKey key) = Some (key_client_id keyToMatch) \<and>
     parsed_audience (fromKey key) = Some (key_audience keyToMatch) \<and>
     truthy (parsed_scope (fromKey key)) \<noteq> None \<and>
     set (split_str '' '' (key_scope keyToMatch)) \<subseteq> scopeSet (parsed_scope (fromKey key))"
  by (auto simp: key_matches_def Let_def foldl_conj)

lemma key_matches_superset:
  "key_matches pfx keyToMatch key \<longleftrightarrow>
     parsed_prefix (fromKey key) = Some pfx \<and>
     parsed_client_id (fromKey key) = Some (key_client_id keyToMatch) \<and>
     parsed_audience (fromKey key) = Some (key_audience keyToMatch) \<and>
     (\<exists>s. parsed_scope (fromKey key) = Some s \<and> s \<noteq> [] \<and>
        set (split_str '' '' (key_scope keyToMatch)) \<subseteq> set (split_str '' '' s))"
  by (auto simp: key_matches_unfold scopeSet_def truthy_def split: option.splits if_splits)

text \<open>
  Claim C3 as stated does not hold for a stored key whose scope is empty. The key
  below is the key of the request with the empty scope: its parsed prefix, client id and
  audience are the requested ones, its parsed scope is the empty string, and the tokens
  of its scope (the one empty token that \<open>split\<close> gives) contain every token of the
  requested scope. The source tests the parsed scope for truthiness (lines 178 and 182),
  so the key is not selected.
\<close>

theorem key_with_empty_scope_not_selected:
  "toKey (ex_request '''') = ''@@auth0spajs@@::c1::aud1::'' \<and>
   parsed_prefix (fromKey ''@@auth0spajs@@::c1::aud1::'') = Some ''@@auth0spajs@@'' \<and>
   parsed_client_id (fromKey ''@@auth0spajs@@::c1::aud1::'') =
      Some (key_client_id (ex_request '''')) \<and>
   parsed_audience (fromKey ''@@auth0spajs@@::c1::aud1::'') =
      Some (key_audience (ex_request '''')) \<and>
   parsed_scope (fromKey ''@@auth0spajs@@::c1::aud1::'') = Some '''' \<and>
   set (split_str '' '' (key_scope (ex_request ''''))) \<subseteq> set (split_str '' '' '''') \<and>
   ''@@auth0spajs@@::c1::aud1::'' \<notin>
      set (matching_keys ''@@auth0spajs@@'' (ex_request '''') [''@@auth0spajs@@::c1::aud1::''])"
  by (simp add: matching_keys_def key_matches_def fromKey_def nth_opt_def toKey_def
      ex_request_def new_CacheKey_def truthy_def scopeSet_def)

text \<open>
  Claim C3, amended. The matching algorithm keeps an enumerated key exactly when its
  parsed prefix is the fixed constant, its parsed client id and audience are the requested
  ones, its parsed scope is present and not the empty string, and the space-delimited
  tokens of its scope contain every space-delimited token of the requested scope (the
  tokens on both sides are the pieces of \<open>split\<close>). In particular a key with the scope
  \<open>a b c\<close> is kept for the request \<open>a b\<close> and not for \<open>a d\<close>, and a key with
  another client id or audience is never kept.
\<close>

theorem matching_keys_iff:
  "(key \<in> set (matching_keys pfx keyToMatch allKeys) \<longleftrightarrow>
      key \<in> set allKeys \<and>
      parsed_prefix (fromKey key) = Some pfx \<and>
      parsed_client_id (fromKey key) = Some (key_client_id keyToMatch) \<and>
      parsed_audience (fromKey key) = Some (key_audience keyToMatch) \<and>
      (\<exists>s. parsed_scope (fromKey key) = Some s \<and> s \<noteq> [] \<and>
         set (split_str '' '' (key_scope keyToMatch)) \<subseteq> set (split_str '' '' s))) \<and>
   (key \<in> set allKeys \<and>
    parsed_prefix (fromKey key) = Some pfx \<and>
    parsed_client_id (fromKey key) = Some (key_client_id keyToMatch) \<and>
    parsed_audience (fromKey key) = Some (key_audience keyToMatch) \<and>
    parsed_scope (fromKey key) = Some ''a b c'' \<longrightarrow>
      (key_scope keyToMatch = ''a b'' \<longrightarrow> key \<in> set (matching_keys pfx keyToMatch allKeys)) \<and>
      (key_scope keyToMatch = ''a d'' \<longrightarrow> key \<notin> set (matching_keys pfx keyToMatch allKeys))) \<and>
   (parsed_client_id (fromKey key) \<noteq> Some (key_client_id keyToMatch) \<or>
    parsed_audience (fromKey key) \<noteq> Some (key_audience keyToMatch) \<longrightarrow>
      key \<notin> set (matching_keys pfx keyToMatch allKeys))"
proof -
  have member: "key \<in> set (matching_keys pfx keyToMatch allKeys) \<longleftrightarrow>
      key \<in> set allKeys \<and> key_matches pfx keyToMatch key"
    by (simp add: matching_keys_def)
  have abc: "set (split_str '' '' ''a b c'') = {''a'', ''b'', ''c''}"
    and ab: "set (split_str '' '' ''a b'') = {''a'', ''b''}"
    and ad: "set (split_str '' '' ''a d'') = {''a'', ''d''}"
    by simp_all
  show ?thesis
    unfolding member key_matches_superset
    by (auto simp: abc ab ad)
qed

theorem matching_keys_iff_witness:
  "''@@auth0spajs@@::c1::aud1::a b c'' \<in> set (matching_keys ''@@auth0spajs@@''
      (new_CacheKey ''@@auth0spajs@@'' ''c1'' ''a b'' ''aud1'')
      [''@@auth0spajs@@::c2::aud1::a b c'', ''@@auth0spajs@@::c1::aud1::a b c'']) \<and>
   ''@@auth0spajs@@::c1::aud1::a b c'' \<notin> set (matching_keys ''@@auth0spajs@@''
      (new_CacheKey ''@@auth0spajs@@'' ''c1'' ''a d'' ''aud1'')
      [''@@auth0spajs@@::c2::aud1::a b c'', ''@@auth0spajs@@::c1::aud1::a b c'']) \<and>
   ''@@auth0spajs@@::c2::aud1::a b c'' \<notin> set (matching_keys ''@@auth0spajs@@''
      (new_CacheKey ''@@auth0spajs@@'' ''c1'' ''a b'' ''aud1'')
      [''@@auth0spajs@@::c2::aud1::a b c'', ''@@auth0spajs@@::c1::aud1::a b c''])"
  using
    matching_keys_iff [of "''@@auth0spajs@@::c1::aud1::a b c''" "''@@auth0spajs@@''"
      "new_CacheKey ''@@auth0spajs@@'' ''c1'' ''a b'' ''aud1''"
      "[''@@auth0spajs@@::c2::aud1::a b c'', ''@@auth0spajs@@::c1::aud1::a b c'']"]
    matching_keys_iff [of "''@@auth0spajs@@::c1::aud1::a b c''" "''@@auth0spajs@@''"
      "new_CacheKey ''@@auth0spajs@@'' ''c1'' ''a d'' ''aud1''"
      "[''@@auth0spajs@@::c2::aud1::a b c'', ''@@auth0spajs@@::c1::aud1::a b c'']"]
    matching_keys_iff [of "''@@auth0spajs@@::c2::aud1::a b c''" "''@@auth0spajs@@''"
      "new_CacheKey ''@@auth0spajs@@'' ''c1'' ''a b'' ''aud1''"
      "[''@@auth0spajs@@::c2::aud1::a b c'', ''@@auth0spajs@@::c1::aud1::a b c'']"]
  by (simp add: fromKey_def nth_opt_def new_CacheKey_def)

text \<open>
  Claim C6. When several enumerated keys match, \<open>matchExistingCacheKey\<close> returns the
  first of them in the order of the enumeration: whatever follows the first matching
  key, matching or not, has no influence.
\<close>

theorem matchExistingCacheKey_first:
  assumes "allKeys = before @ k # after"
    and "\<forall>x \<in> set before. \<not> key_matches pfx keyToMatch x"
    and "key_matches pfx keyToMatch k"
  shows "matchExistingCacheKey pfx keyToMatch allKeys = Some k"
proof -
  from assms(2) have "filter (key_matches pfx keyToMatch) before = []"
    by (simp add: filter_empty_conv)
  with assms(1,3) show ?thesis
    by (simp add: matchExistingCacheKey_def matching_keys_def)
qed

theorem matchExistingCacheKey_first_witness:
  "matchExistingCacheKey ''@@auth0spajs@@''
     (new_CacheKey ''@@auth0spajs@@'' ''c1'' ''read'' ''aud1'')
     [''@@auth0spajs@@::c1::aud1::write'', ''@@auth0spajs@@::c1::aud1::read write'',
      ''@@auth0spajs@@::c1::aud1::read''] = Some ''@@auth0spajs@@::c1::aud1::read write'' \<and>
   key_matches ''@@auth0spajs@@'' (new_CacheKey ''@@auth0spajs@@'' ''c1'' ''read'' ''aud1'')
     ''@@auth0spajs@@::c1::aud1::read''"
proof -
  have m: "key_matches ''@@auth0spajs@@'' (new_CacheKey ''@@auth0spajs@@'' ''c1'' ''read'' ''aud1'') k
      \<longleftrightarrow> k \<noteq> ''@@auth0spajs@@::c1::aud1::write''"
    if "k \<in> {''@@auth0spajs@@::c1::aud1::write'', ''@@auth0spajs@@::c1::aud1::read write'',
      ''@@auth0spajs@@::c1::aud1::read''}" for k
    using that
    by (auto simp: key_matches_def fromKey_def nth_opt_def new_CacheKey_def truthy_def scopeSet_def)
  show ?thesis
    using matchExistingCacheKey_first [of
        "[''@@auth0spajs@@::c1::aud1::write'', ''@@auth0spajs@@::c1::aud1::read write'',
          ''@@auth0spajs@@::c1::aud1::read'']"
        "[''@@auth0spajs@@::c1::aud1::write'']" "''@@auth0spajs@@::c1::aud1::read write''"
        "[''@@auth0spajs@@::c1::aud1::read'']" "''@@auth0spajs@@''"
        "new_CacheKey ''@@auth0spajs@@'' ''c1'' ''read'' ''aud1''"]
    by (simp add: m)
qed

subsection \<open>Reading\<close>

lemma manifest_remove_keeps_None:
  "cache_get c k = None \<Longrightarrow> cache_get (manifest_remove c mk key) k = None"
  by (auto simp: manifest_remove_def manifest_get_def split: option.splits stored.splits)

lemma manifest_remove_keeps_Wrapped:
  "cache_get c k = Some (Wrapped w) \<Longrightarrow> cache_get (manifest_remove c mk key) k = Some (Wrapped w)"
  by (auto simp: manifest_remove_def manifest_get_def split: option.splits stored.splits)

lemma manifest_remove_not_listed:
  "key \<notin> set (manifest_keys (manifest_remove c mk key) mk)"
  by (auto simp: manifest_remove_def manifest_keys_def manifest_get_def
      split: option.splits stored.splits)

lemma get_found:
  "find_wrappedEntry pfx M cacheKey = Some (origin, Wrapped w) \<Longrightarrow>
   get pfx M cacheKey adj now_ms =
     (if expiresAt w - adj < now_ms div 1000 then get_expired M cacheKey origin w
      else (Some (body w), M))"
  by (simp add: get_def)

lemma get_expired_purge:
  "truthy (body_refresh_token (body w)) = None \<Longrightarrow>
   get_expired M cacheKey origin w =
     (None, keyManifest_remove (M\<lparr>cache := cache_remove (cache M) (toKey cacheKey)\<rparr>)
        (toKey cacheKey))"
  by (simp add: get_expired_def)

lemma get_expired_narrow:
  "truthy (body_refresh_token (body w)) = Some r \<Longrightarrow>
   get_expired M cacheKey origin w =
     (Some (refresh_only r),
      M\<lparr>cache :=
        (case origin of
           None \<Rightarrow> cache_set (cache M) (toKey cacheKey) (Wrapped (w\<lparr>body := refresh_only r\<rparr>))
         | Some a \<Rightarrow>
             cache_set_ref (assign_object (cache M) a (Wrapped (w\<lparr>body := refresh_only r\<rparr>)))
               (toKey cacheKey) a)\<rparr>)"
  by (simp add: get_expired_def Let_def split: option.splits)

lemma keyManifest_remove_purged:
  "cache_get (cache (keyManifest_remove (M\<lparr>cache := cache_remove (cache M) k\<rparr>) k)) k = None \<and>
   k \<notin> manifest_tracked (keyManifest_remove (M\<lparr>cache := cache_remove (cache M) k\<rparr>) k)"
  by (cases "keyManifest M")
    (simp_all add: keyManifest_remove_def manifest_tracked_def manifest_remove_keeps_None
      manifest_remove_not_listed)

lemma narrowed_written:
  "cache_get
     (case origin of
        None \<Rightarrow> cache_set c k v
      | Some a \<Rightarrow> cache_set_ref (assign_object c a v) k a) k = Some v"
  by (simp add: cache_get_set_ref assign_object_def update_conv' split: option.splits)

text \<open>
  Claim C4. \<open>get\<close> has no failure of its own: its result is a body or nothing, and
  on every miss it is nothing and the manager is left as it was. A miss is an exact
  lookup that finds no record together with an enumeration that yields no list, or a
  list in which no key matches, or a matched key under which the backend holds no
  record.
\<close>

theorem get_miss_returns_nothing:
  assumes "cache_get (cache M) (toKey cacheKey) = None"
    and "getCacheKeys M = None \<or>
      (\<exists>keys. getCacheKeys M = Some keys \<and>
         ((\<forall>k \<in> set keys. \<not> key_matches pfx cacheKey k) \<or>
          (\<exists>matchedKey. matchExistingCacheKey pfx cacheKey keys = Some matchedKey \<and>
             cache_get (cache M) matchedKey = None)))"
  shows "get pfx M cacheKey adj now_ms = (None, M)"
proof -
  have none: "matchExistingCacheKey pfx cacheKey keys = None"
    if "\<forall>k \<in> set keys. \<not> key_matches pfx cacheKey k" for keys
    using that by (simp add: matchExistingCacheKey_def matching_keys_def filter_empty_conv)
  from assms(2) have "find_wrappedEntry pfx M cacheKey = None"
    by (auto simp: find_wrappedEntry_def none cache_get_object_None [OF assms(1)]
        cache_get_object_None)
  then show ?thesis by (simp add: get_def)
qed

theorem get_miss_returns_nothing_witness:
  "get ''@@auth0spajs@@'' (ex_empty False False)
      (ex_request ''read'') 0 50000 =
     (None, ex_empty False False) \<and>
   get ''@@auth0spajs@@'' (ex_stored False False None) (ex_request ''admin'') 0 50000 = (None, ex_stored False False None) \<and>
   matchExistingCacheKey ''@@auth0spajs@@'' (ex_request ''read'') [''@@auth0spajs@@::c1::aud1::read write''] = Some ''@@auth0spajs@@::c1::aud1::read write'' \<and>
   get ''@@auth0spajs@@'' ((ex_stored False False None)\<lparr>cache := cache_remove (cache (ex_stored False False None)) ''@@auth0spajs@@::c1::aud1::read write''\<rparr>)
      (ex_request ''read'') 0 50000 =
     (None, (ex_stored False False None)\<lparr>cache := cache_remove (cache (ex_stored False False None)) ''@@auth0spajs@@::c1::aud1::read write''\<rparr>)"
proof -
  let ?M0 = "ex_empty False False"
  let ?M2 = "(ex_stored False False None)\<lparr>cache := cache_remove (cache (ex_stored False False None)) ''@@auth0spajs@@::c1::aud1::read write''\<rparr>"
  have a1: "cache_get (cache ?M0) (toKey (ex_request ''read'')) = None"
    by code_simp
  have a2: "getCacheKeys ?M0 = None"
    by code_simp
  have b1: "cache_get (cache (ex_stored False False None)) (toKey (ex_request ''admin'')) = None"
    by code_simp
  have b2: "getCacheKeys (ex_stored False False None) = Some [''@@auth0spajs@@::c1::aud1::read write'']"
    by code_simp
  have b3: "\<not> key_matches ''@@auth0spajs@@'' (ex_request ''admin'') ''@@auth0spajs@@::c1::aud1::read write''"
    by code_simp
  have c1: "cache_get (cache ?M2) (toKey (ex_request ''read'')) = None"
    by code_simp
  have c2: "getCacheKeys ?M2 = Some [''@@auth0spajs@@::c1::aud1::read write'']"
    by code_simp
  have c3: "matchExistingCacheKey ''@@auth0spajs@@'' (ex_request ''read'') [''@@auth0spajs@@::c1::aud1::read write''] = Some ''@@auth0spajs@@::c1::aud1::read write''"
    by code_simp
  have c4: "cache_get (cache ?M2) ''@@auth0spajs@@::c1::aud1::read write'' = None"
    by code_simp
  from a2 have a: "get ''@@auth0spajs@@'' ?M0 (ex_request ''read'') 0 50000 = (None, ?M0)"
    by (intro get_miss_returns_nothing [OF a1]) simp
  from b2 b3 have b: "get ''@@auth0spajs@@'' (ex_stored False False None) (ex_request ''admin'') 0 50000 =
      (None, ex_stored False False None)"
    by (intro get_miss_returns_nothing [OF b1]) simp
  from c2 c3 c4 have c: "get ''@@auth0spajs@@'' ?M2 (ex_request ''read'') 0 50000 = (None, ?M2)"
    by (intro get_miss_returns_nothing [OF c1]) simp
  from a b c c3 show ?thesis by blast
qed

text \<open>
  Claim C9. The expiry test of \<open>get\<close> is strict. A wrapped entry that was found with
  \<open>expiresAt\<close> less the adjustment smaller than the current time in whole seconds is
  treated as expired: with a truthy refresh token \<open>get\<close> returns the body narrowed to
  it and the backend holds the narrowed entry under the requested key; otherwise \<open>get\<close>
  returns nothing and afterwards the backend holds no record under the requested key and
  the manifest does not list it. A wrapped entry that was found with an adjusted expiry
  not smaller than the current second, and so one whose adjusted expiry is the current
  second, is returned with its full body, and the manager, and with it the backend, is
  unchanged.
\<close>

theorem get_expiry_is_strict:
  assumes "find_wrappedEntry pfx M cacheKey = Some (origin, Wrapped w)"
  shows "(expiresAt w - adj < now_ms div 1000 \<longrightarrow>
      (\<forall>r. truthy (body_refresh_token (body w)) = Some r \<longrightarrow>
         fst (get pfx M cacheKey adj now_ms) = Some (refresh_only r) \<and>
         cache_get (cache (snd (get pfx M cacheKey adj now_ms))) (toKey cacheKey) =
           Some (Wrapped (w\<lparr>body := refresh_only r\<rparr>))) \<and>
      (truthy (body_refresh_token (body w)) = None \<longrightarrow>
         fst (get pfx M cacheKey adj now_ms) = None \<and>
         cache_get (cache (snd (get pfx M cacheKey adj now_ms))) (toKey cacheKey) = None \<and>
         toKey cacheKey \<notin> manifest_tracked (snd (get pfx M cacheKey adj now_ms)))) \<and>
    (\<not> expiresAt w - adj < now_ms div 1000 \<longrightarrow>
      get pfx M cacheKey adj now_ms = (Some (body w), M)) \<and>
    (expiresAt w - adj = now_ms div 1000 \<longrightarrow>
      get pfx M cacheKey adj now_ms = (Some (body w), M))"
proof -
  have narrowed: "fst (get pfx M cacheKey adj now_ms) = Some (refresh_only r) \<and>
      cache_get (cache (snd (get pfx M cacheKey adj now_ms))) (toKey cacheKey) =
        Some (Wrapped (w\<lparr>body := refresh_only r\<rparr>))"
    if "expiresAt w - adj < now_ms div 1000"
      and "truthy (body_refresh_token (body w)) = Some r" for r
    using that assms by (simp add: get_found get_expired_narrow narrowed_written)
  have purged: "fst (get pfx M cacheKey adj now_ms) = None \<and>
      cache_get (cache (snd (get pfx M cacheKey adj now_ms))) (toKey cacheKey) = None \<and>
      toKey cacheKey \<notin> manifest_tracked (snd (get pfx M cacheKey adj now_ms))"
    if "expiresAt w - adj < now_ms div 1000"
      and "truthy (body_refresh_token (body w)) = None"
    using that assms keyManifest_remove_purged [of M "toKey cacheKey"]
    by (simp add: get_found get_expired_purge)
  have served: "get pfx M cacheKey adj now_ms = (Some (body w), M)"
    if "\<not> expiresAt w - adj < now_ms div 1000"
    using that assms by (simp add: get_found)
  from narrowed purged served show ?thesis
    by auto
qed

theorem get_expiry_is_strict_witness:
  "find_wrappedEntry ''@@auth0spajs@@'' (ex_stored False False (Some ''r1''))
      (ex_request ''read write'') = Some (None, Wrapped (ex_wrapped (Some ''r1''))) \<and>
   expiresAt (ex_wrapped (Some ''r1'')) - 0 = 100999 div 1000 \<and>
   get ''@@auth0spajs@@'' (ex_stored False False (Some ''r1'')) (ex_request ''read write'')
      0 100999 =
      (Some (body (ex_wrapped (Some ''r1''))), ex_stored False False (Some ''r1'')) \<and>
   expiresAt (ex_wrapped (Some ''r1'')) - 0 < 101000 div 1000 \<and>
   fst (get ''@@auth0spajs@@'' (ex_stored False False (Some ''r1''))
      (ex_request ''read write'') 0 101000) = Some (refresh_only ''r1'') \<and>
   cache_get
     (cache (snd (get ''@@auth0spajs@@'' (ex_stored False False (Some ''r1''))
        (ex_request ''read write'') 0 101000)))
     (toKey (ex_request ''read write'')) =
      Some (Wrapped ((ex_wrapped (Some ''r1''))\<lparr>body := refresh_only ''r1''\<rparr>)) \<and>
   find_wrappedEntry ''@@auth0spajs@@'' (ex_stored False False None)
      (ex_request ''read write'') = Some (None, Wrapped (ex_wrapped None)) \<and>
   expiresAt (ex_wrapped None) - 0 < 101000 div 1000 \<and>
   fst (get ''@@auth0spajs@@'' (ex_stored False False None)
      (ex_request ''read write'') 0 101000) = None \<and>
   cache_get
     (cache (snd (get ''@@auth0spajs@@'' (ex_stored False False None)
        (ex_request ''read write'') 0 101000)))
     (toKey (ex_request ''read write'')) = None"
proof -
  have h: "find_wrappedEntry ''@@auth0spajs@@'' (ex_stored False False (Some ''r1''))
      (ex_request ''read write'') = Some (None, Wrapped (ex_wrapped (Some ''r1'')))"
    by code_simp
  have e1: "expiresAt (ex_wrapped (Some ''r1'')) - 0 = 100999 div 1000"
    by code_simp
  have e2: "expiresAt (ex_wrapped (Some ''r1'')) - 0 < 101000 div 1000"
    by code_simp
  have t: "truthy (body_refresh_token (body (ex_wrapped (Some ''r1'')))) = Some ''r1''"
    by code_simp
  have h': "find_wrappedEntry ''@@auth0spajs@@'' (ex_stored False False None)
      (ex_request ''read write'') = Some (None, Wrapped (ex_wrapped None))"
    by code_simp
  have e3: "expiresAt (ex_wrapped None) - 0 < 101000 div 1000"
    by code_simp
  have t': "truthy (body_refresh_token (body (ex_wrapped None))) = None"
    by code_simp
  from get_expiry_is_strict [OF h, of 0 100999] get_expiry_is_strict [OF h, of 0 101000]
    get_expiry_is_strict [OF h', of 0 101000] h e1 e2 t h' e3 t'
  show ?thesis
    by blast
qed

text \<open>
  The exact lookup purges the entry it found: when the record under the requested key is
  a wrapped entry whose adjusted expiry is in the past and whose body has no refresh
  token, \<open>get\<close> returns nothing, the backend no longer holds the requested key and the
  manifest, if there is one, no longer lists it.
\<close>

lemma get_exact_purges_entry:
  assumes "cache_get (cache M) (toKey cacheKey) = Some (Wrapped w)"
    and "expiresAt w - adj < now_ms div 1000"
    and "body_refresh_token (body w) = None"
  shows "fst (get pfx M cacheKey adj now_ms) = None \<and>
    cache_get (cache (snd (get pfx M cacheKey adj now_ms))) (toKey cacheKey) = None \<and>
    toKey cacheKey \<notin> manifest_tracked (snd (get pfx M cacheKey adj now_ms))"
proof -
  from assms(1) have "find_wrappedEntry pfx M cacheKey =
      Some (cache_get_ref (cache M) (toKey cacheKey), Wrapped w)"
    by (simp add: find_wrappedEntry_def cache_get_object_def)
  moreover from assms(3) have "truthy (body_refresh_token (body w)) = None"
    by (simp add: truthy_def)
  ultimately show ?thesis
    using assms(2) keyManifest_remove_purged [of M "toKey cacheKey"]
    by (simp add: get_found get_expired_purge)
qed

text \<open>
  Claim C1 does not hold for an entry found by the matching algorithm. The request for
  scope \<open>read\<close> at second 200 misses on the exact lookup and finds, by matching, the
  entry stored under the key with scope \<open>read write\<close>, which expired at second 100
  and has no refresh token. \<open>get\<close> returns nothing, but lines 79 and 84 remove the
  requested key, under which the exact lookup has just found nothing: the backend still
  holds the key the entry is stored under, and the manifest still lists it.
\<close>

theorem get_purge_keeps_matched_key:
  "cache_get (cache (ex_stored False False None)) (toKey (ex_request ''read'')) = None \<and>
   find_wrappedEntry ''@@auth0spajs@@'' (ex_stored False False None) (ex_request ''read'') =
      Some (None, Wrapped (ex_wrapped None)) \<and>
   cache_get (cache (ex_stored False False None)) ''@@auth0spajs@@::c1::aud1::read write'' = Some (Wrapped (ex_wrapped None)) \<and>
   expiresAt (ex_wrapped None) - 0 < 200000 div 1000 \<and>
   body_refresh_token (body (ex_wrapped None)) = None \<and>
   fst (get ''@@auth0spajs@@'' (ex_stored False False None) (ex_request ''read'') 0 200000) = None \<and>
   cache_get (cache (snd (get ''@@auth0spajs@@'' (ex_stored False False None) (ex_request ''read'') 0 200000))) ''@@auth0spajs@@::c1::aud1::read write'' =
      Some (Wrapped (ex_wrapped None)) \<and>
   ''@@auth0spajs@@::c1::aud1::read write'' \<in> manifest_tracked (snd (get ''@@auth0spajs@@'' (ex_stored False False None) (ex_request ''read'') 0 200000))"
  by code_simp

text \<open>
  The entry that is not purged stays the first match. In the state with the expired entry
  for \<open>read write\<close> and the valid entry for \<open>read admin\<close>, both of which match the
  request for \<open>read\<close>, \<open>get\<close> at second 200 returns nothing, and returns nothing
  again when it is called on the resulting state.
\<close>

lemma get_stale_match_shadows_valid_entry:
  "getCacheKeys ex_two_entries =
      Some [''@@auth0spajs@@::c1::aud1::read write'', ''@@auth0spajs@@::c1::aud1::read admin''] \<and>
   key_matches ''@@auth0spajs@@'' (ex_request ''read'') ''@@auth0spajs@@::c1::aud1::read admin'' \<and>
   cache_get (cache ex_two_entries) ''@@auth0spajs@@::c1::aud1::read admin'' =
      Some (Wrapped (wrapCacheEntry 150000 ex_entry_admin)) \<and>
   \<not> expiresAt (wrapCacheEntry 150000 ex_entry_admin) - 0 < 200000 div 1000 \<and>
   fst (get ''@@auth0spajs@@'' ex_two_entries (ex_request ''read'') 0 200000) = None \<and>
   fst (get ''@@auth0spajs@@''
      (snd (get ''@@auth0spajs@@'' ex_two_entries (ex_request ''read'') 0 200000))
      (ex_request ''read'') 0 200000) = None"
  by code_simp

text \<open>
  Claim C2 as stated does not hold for a refresh token that is the empty string: the
  source tests the field for truthiness. The entry below carries the field
  \<open>refresh_token\<close> with the empty string and expired at second 100; at second 200
  \<open>get\<close> returns nothing and removes the record.
\<close>

theorem get_empty_refresh_token_purged:
  "find_wrappedEntry ''@@auth0spajs@@'' (ex_stored False False (Some [])) (ex_request ''read write'') =
      Some (None, Wrapped (ex_wrapped (Some []))) \<and>
   expiresAt (ex_wrapped (Some [])) - 0 < 200000 div 1000 \<and>
   body_refresh_token (body (ex_wrapped (Some []))) = Some [] \<and>
   fst (get ''@@auth0spajs@@'' (ex_stored False False (Some [])) (ex_request ''read write'') 0 200000) = None \<and>
   cache_get
     (cache (snd (get ''@@auth0spajs@@'' (ex_stored False False (Some [])) (ex_request ''read write'') 0 200000)))
     (toKey (ex_request ''read write'')) = None"
  by code_simp

text \<open>
  Claim C2, amended. When \<open>get\<close> finds a wrapped entry whose adjusted expiry is in the
  past and whose body carries a refresh token that is not the empty string, it returns a
  body with that refresh token and no other field, and the record of the backend under
  the requested key becomes a wrapped entry with that body and the old \<open>expiresAt\<close>.
\<close>

theorem get_narrows_to_refresh_token:
  assumes "find_wrappedEntry pfx M cacheKey = Some (origin, Wrapped w)"
    and "expiresAt w - adj < now_ms div 1000"
    and "body_refresh_token (body w) = Some r"
    and "r \<noteq> []"
  shows "fst (get pfx M cacheKey adj now_ms) =
      Some \<lparr>body_client_id = None, body_scope = None, body_audience = None,
            body_expires_in = None, body_claims_exp = None, body_refresh_token = Some r\<rparr> \<and>
    cache_get (cache (snd (get pfx M cacheKey adj now_ms))) (toKey cacheKey) =
      Some (Wrapped \<lparr>body = \<lparr>body_client_id = None, body_scope = None, body_audience = None,
            body_expires_in = None, body_claims_exp = None, body_refresh_token = Some r\<rparr>,
          expiresAt = expiresAt w\<rparr>)"
proof -
  from assms(3,4) have "truthy (body_refresh_token (body w)) = Some r"
    by (simp add: truthy_def)
  with assms(1,2) have "fst (get pfx M cacheKey adj now_ms) = Some (refresh_only r) \<and>
      cache_get (cache (snd (get pfx M cacheKey adj now_ms))) (toKey cacheKey) =
        Some (Wrapped (w\<lparr>body := refresh_only r\<rparr>))"
    by (simp add: get_found get_expired_narrow narrowed_written)
  moreover have "w\<lparr>body := refresh_only r\<rparr> = \<lparr>body = refresh_only r, expiresAt = expiresAt w\<rparr>"
    by (cases w) simp
  ultimately show ?thesis
    by (simp add: refresh_only_def)
qed

theorem get_narrows_to_refresh_token_witness:
  "find_wrappedEntry ''@@auth0spajs@@'' (ex_stored False False (Some ''r1'')) (ex_request ''read write'') =
      Some (None, Wrapped (ex_wrapped (Some ''r1''))) \<and>
   expiresAt (ex_wrapped (Some ''r1'')) - 0 < 200000 div 1000 \<and>
   body_refresh_token (body (ex_wrapped (Some ''r1''))) = Some ''r1'' \<and>
   fst (get ''@@auth0spajs@@'' (ex_stored False False (Some ''r1'')) (ex_request ''read write'') 0 200000) =
      Some \<lparr>body_client_id = None, body_scope = None, body_audience = None,
            body_expires_in = None, body_claims_exp = None, body_refresh_token = Some ''r1''\<rparr> \<and>
   cache_get
     (cache (snd (get ''@@auth0spajs@@'' (ex_stored False False (Some ''r1'')) (ex_request ''read write'') 0 200000)))
     (toKey (ex_request ''read write'')) =
      Some (Wrapped \<lparr>body = \<lparr>body_client_id = None, body_scope = None, body_audience = None,
            body_expires_in = None, body_claims_exp = None, body_refresh_token = Some ''r1''\<rparr>,
          expiresAt = expiresAt (ex_wrapped (Some ''r1''))\<rparr>)"
proof -
  have h1: "find_wrappedEntry ''@@auth0spajs@@'' (ex_stored False False (Some ''r1'')) (ex_request ''read write'') =
      Some (None, Wrapped (ex_wrapped (Some ''r1'')))"
    by code_simp
  have h2: "expiresAt (ex_wrapped (Some ''r1'')) - 0 < 200000 div 1000"
    by code_simp
  have h3: "body_refresh_token (body (ex_wrapped (Some ''r1''))) = Some ''r1''"
    by code_simp
  have h4: "''r1'' \<noteq> []"
    by simp
  from get_narrows_to_refresh_token [OF h1 h2 h3 h4] h1 h2 h3 show ?thesis
    by blast
qed

text \<open>
  Claim C10 as stated does not hold over a backend that hands out its own objects. The
  request for scope \<open>read\<close> at second 200 finds, by matching, the expired entry with
  the refresh token \<open>r1\<close> under the key with scope \<open>read write\<close>. Line 70 assigns the
  narrowed body to the object that \<open>get\<close> of the backend returned, which is the stored
  one: afterwards the record under the matched key is the narrowed entry, not the entry
  that was there.
\<close>

theorem get_narrowing_reaches_shared_object:
  "shares (cache (ex_stored False True (Some ''r1''))) \<and>
   cache_get (cache (ex_stored False True (Some ''r1''))) (toKey (ex_request ''read'')) = None \<and>
   getCacheKeys (ex_stored False True (Some ''r1'')) =
      Some [''@@auth0spajs@@::c1::aud1::read write''] \<and>
   matchExistingCacheKey ''@@auth0spajs@@'' (ex_request ''read'')
      [''@@auth0spajs@@::c1::aud1::read write''] = Some ''@@auth0spajs@@::c1::aud1::read write'' \<and>
   cache_get (cache (ex_stored False True (Some ''r1''))) ''@@auth0spajs@@::c1::aud1::read write'' =
      Some (Wrapped (ex_wrapped (Some ''r1''))) \<and>
   expiresAt (ex_wrapped (Some ''r1'')) - 0 < 200000 div 1000 \<and>
   body_refresh_token (body (ex_wrapped (Some ''r1''))) = Some ''r1'' \<and>
   cache_get
     (cache (snd (get ''@@auth0spajs@@'' (ex_stored False True (Some ''r1''))
        (ex_request ''read'') 0 200000)))
     ''@@auth0spajs@@::c1::aud1::read write'' =
      Some (Wrapped ((ex_wrapped (Some ''r1''))\<lparr>body := refresh_only ''r1''\<rparr>)) \<and>
   (ex_wrapped (Some ''r1''))\<lparr>body := refresh_only ''r1''\<rparr> \<noteq> ex_wrapped (Some ''r1'')"
  by code_simp

text \<open>
  Claim C10, amended. When the exact lookup misses and \<open>get\<close> finds an expired wrapped
  entry through the matching algorithm, its writes and removals go to the requested key.
  With a refresh token the narrowed entry is written under the requested key; the record
  under the matched key is as before when the backend hands out copies, and is the
  narrowed entry too when the backend hands out its own objects. Without a refresh token
  \<open>get\<close> returns nothing and the record under the matched key is still there, as
  before.
\<close>

theorem get_mutates_requested_key:
  assumes "cache_get (cache M) (toKey cacheKey) = None"
    and "getCacheKeys M = Some keys"
    and "matchExistingCacheKey pfx cacheKey keys = Some matchedKey"
    and "cache_get (cache M) matchedKey = Some (Wrapped w)"
    and "expiresAt w - adj < now_ms div 1000"
  shows "(\<forall>r. truthy (body_refresh_token (body w)) = Some r \<longrightarrow>
      cache_get (cache (snd (get pfx M cacheKey adj now_ms))) (toKey cacheKey) =
        Some (Wrapped (w\<lparr>body := refresh_only r\<rparr>)) \<and>
      cache_get (cache (snd (get pfx M cacheKey adj now_ms))) matchedKey =
        Some (Wrapped (if shares (cache M) then w\<lparr>body := refresh_only r\<rparr> else w))) \<and>
    (truthy (body_refresh_token (body w)) = None \<longrightarrow>
      fst (get pfx M cacheKey adj now_ms) = None \<and>
      cache_get (cache (snd (get pfx M cacheKey adj now_ms))) matchedKey = Some (Wrapped w))"
proof -
  let ?origin = "cache_get_ref (cache M) matchedKey"
  from assms(1-4) have found: "find_wrappedEntry pfx M cacheKey = Some (?origin, Wrapped w)"
    by (simp add: find_wrappedEntry_def cache_get_object_def)
  from assms(1,4) have ne: "matchedKey \<noteq> toKey cacheKey"
    by auto
  have narrow: "cache_get (cache (snd (get pfx M cacheKey adj now_ms))) (toKey cacheKey) =
        Some (Wrapped (w\<lparr>body := refresh_only r\<rparr>)) \<and>
      cache_get (cache (snd (get pfx M cacheKey adj now_ms))) matchedKey =
        Some (Wrapped (if shares (cache M) then w\<lparr>body := refresh_only r\<rparr> else w))"
    if t: "truthy (body_refresh_token (body w)) = Some r" for r
  proof -
    let ?n = "Wrapped (w\<lparr>body := refresh_only r\<rparr>)"
    let ?c = "case ?origin of
        None \<Rightarrow> cache_set (cache M) (toKey cacheKey) ?n
      | Some a \<Rightarrow> cache_set_ref (assign_object (cache M) a ?n) (toKey cacheKey) a"
    from t found assms(5) have g: "snd (get pfx M cacheKey adj now_ms) = M\<lparr>cache := ?c\<rparr>"
      by (simp add: get_found get_expired_narrow)
    have requested: "cache_get ?c (toKey cacheKey) = Some ?n"
      by (rule narrowed_written)
    have matched: "cache_get ?c matchedKey =
        Some (Wrapped (if shares (cache M) then w\<lparr>body := refresh_only r\<rparr> else w))"
    proof (cases "shares (cache M)")
      case True
      from assms(4) obtain a where a: "map_of (entries (cache M)) matchedKey = Some a"
        by (auto simp: cache_get_def split: option.splits)
      with True have "?origin = Some a"
        by (simp add: cache_get_ref_def)
      with True a ne show ?thesis
        by (simp add: cache_get_set_ref cache_get_assign_object)
    next
      case False
      then have "?origin = None"
        by (simp add: cache_get_ref_def)
      with False assms(4) ne show ?thesis
        by simp
    qed
    from requested matched show ?thesis
      by (simp add: g)
  qed
  have purge: "fst (get pfx M cacheKey adj now_ms) = None \<and>
      cache_get (cache (snd (get pfx M cacheKey adj now_ms))) matchedKey = Some (Wrapped w)"
    if t: "truthy (body_refresh_token (body w)) = None"
  proof -
    let ?M1 = "M\<lparr>cache := cache_remove (cache M) (toKey cacheKey)\<rparr>"
    from assms(4) ne have "cache_get (cache ?M1) matchedKey = Some (Wrapped w)"
      by simp
    then have "cache_get (cache (keyManifest_remove ?M1 (toKey cacheKey))) matchedKey =
        Some (Wrapped w)"
      by (cases "keyManifest M") (simp_all add: keyManifest_remove_def manifest_remove_keeps_Wrapped)
    with t found assms(5) show ?thesis
      by (simp add: get_found get_expired_purge)
  qed
  from narrow purge show ?thesis by blast
qed

theorem get_mutates_requested_key_witness:
  "cache_get (cache (ex_stored False False (Some ''r1''))) (toKey (ex_request ''read'')) = None \<and>
   getCacheKeys (ex_stored False False (Some ''r1'')) =
      Some [''@@auth0spajs@@::c1::aud1::read write''] \<and>
   matchExistingCacheKey ''@@auth0spajs@@'' (ex_request ''read'')
      [''@@auth0spajs@@::c1::aud1::read write''] = Some ''@@auth0spajs@@::c1::aud1::read write'' \<and>
   cache_get (cache (ex_stored False False (Some ''r1''))) ''@@auth0spajs@@::c1::aud1::read write'' =
      Some (Wrapped (ex_wrapped (Some ''r1''))) \<and>
   expiresAt (ex_wrapped (Some ''r1'')) - 0 < 200000 div 1000 \<and>
   cache_get
     (cache (snd (get ''@@auth0spajs@@'' (ex_stored False False (Some ''r1''))
        (ex_request ''read'') 0 200000)))
     (toKey (ex_request ''read'')) =
      Some (Wrapped ((ex_wrapped (Some ''r1''))\<lparr>body := refresh_only ''r1''\<rparr>)) \<and>
   cache_get
     (cache (snd (get ''@@auth0spajs@@'' (ex_stored False False (Some ''r1''))
        (ex_request ''read'') 0 200000)))
     ''@@auth0spajs@@::c1::aud1::read write'' = Some (Wrapped (ex_wrapped (Some ''r1'')))"
proof -
  have h1: "cache_get (cache (ex_stored False False (Some ''r1''))) (toKey (ex_request ''read'')) =
      None"
    by code_simp
  have h2: "getCacheKeys (ex_stored False False (Some ''r1'')) =
      Some [''@@auth0spajs@@::c1::aud1::read write'']"
    by code_simp
  have h3: "matchExistingCacheKey ''@@auth0spajs@@'' (ex_request ''read'')
      [''@@auth0spajs@@::c1::aud1::read write''] = Some ''@@auth0spajs@@::c1::aud1::read write''"
    by code_simp
  have h4: "cache_get (cache (ex_stored False False (Some ''r1'')))
      ''@@auth0spajs@@::c1::aud1::read write'' = Some (Wrapped (ex_wrapped (Some ''r1'')))"
    by code_simp
  have h5: "expiresAt (ex_wrapped (Some ''r1'')) - 0 < 200000 div 1000"
    by code_simp
  have t: "truthy (body_refresh_token (body (ex_wrapped (Some ''r1'')))) = Some ''r1''"
    by code_simp
  have s: "\<not> shares (cache (ex_stored False False (Some ''r1'')))"
    by code_simp
  from get_mutates_requested_key [OF h1 h2 h3 h4 h5] t s h1 h2 h3 h4 h5 show ?thesis
    by simp
qed

subsection \<open>Writing\<close>

lemma cache_get_manifest_add_other:
  "k \<noteq> mk \<Longrightarrow> cache_get (manifest_add c mk key) k = cache_get c k"
  by (simp add: manifest_add_def Let_def)

lemma manifest_keys_add:
  "set (manifest_keys (manifest_add c mk key) mk) = insert key (set (manifest_keys c mk))"
proof -
  have "manifest_keys (cache_set c mk (KeyManifestEntry ks)) mk = ks" for ks
    by (simp add: manifest_keys_def manifest_get_def)
  then show ?thesis
    by (auto simp: manifest_add_def Let_def)
qed

lemma manifest_keys_set_other:
  "k \<noteq> mk \<Longrightarrow> manifest_keys (cache_set c k v) mk = manifest_keys c mk"
  by (simp add: manifest_keys_def manifest_get_def)

text \<open>
  Claim C5. The wrapped entry that \<open>set\<close> persists has as \<open>expiresAt\<close> the minimum
  of the current time in whole seconds plus \<open>expires_in\<close> and of the token's claim
  \<open>exp\<close>, so it exceeds neither. It is the record the backend holds under the derived
  key after \<open>set\<close>, unless the derived key is the storage key of the manifest, whose
  record \<open>set\<close> writes right after the entry.
\<close>

theorem set_entry_expiresAt:
  "expiresAt (wrapCacheEntry now_ms entry) =
      min (now_ms div 1000 + expires_in entry) (claims_exp entry) \<and>
   expiresAt (wrapCacheEntry now_ms entry) \<le> now_ms div 1000 + expires_in entry \<and>
   expiresAt (wrapCacheEntry now_ms entry) \<le> claims_exp entry \<and>
   (keyManifest M \<noteq>
      Some (toKey (new_CacheKey pfx (client_id entry) (scope entry) (audience entry))) \<longrightarrow>
    cache_get (cache (set_entry pfx M entry now_ms))
        (toKey (new_CacheKey pfx (client_id entry) (scope entry) (audience entry))) =
      Some (Wrapped (wrapCacheEntry now_ms entry)))"
proof -
  let ?k = "toKey (new_CacheKey pfx (client_id entry) (scope entry) (audience entry))"
  have "cache_get (cache (set_entry pfx M entry now_ms)) ?k =
      Some (Wrapped (wrapCacheEntry now_ms entry))"
    if other: "keyManifest M \<noteq> Some ?k"
  proof (cases "keyManifest M")
    case None
    then show ?thesis by (simp add: set_entry_def keyManifest_add_def Let_def)
  next
    case (Some mk)
    with other have "?k \<noteq> mk" by simp
    with Some show ?thesis
      by (simp add: set_entry_def keyManifest_add_def Let_def cache_get_manifest_add_other)
  qed
  then show ?thesis by (simp add: wrapCacheEntry_def Let_def)
qed

theorem set_entry_expiresAt_witness:
  "keyManifest (ex_empty False False) \<noteq> Some ''@@auth0spajs@@::c1::aud1::read write'' \<and>
   cache_get (cache (set_entry ''@@auth0spajs@@'' (ex_empty False False) (ex_entry None) 50000))
     ''@@auth0spajs@@::c1::aud1::read write'' =
      Some (Wrapped (wrapCacheEntry 50000 (ex_entry None))) \<and>
   expiresAt (wrapCacheEntry 50000 (ex_entry None)) = 100 \<and>
   expiresAt (wrapCacheEntry 50000 (ex_entry None)) \<le> 50000 div 1000 + expires_in (ex_entry None)"
proof -
  have k: "toKey (new_CacheKey ''@@auth0spajs@@'' (client_id (ex_entry None))
      (scope (ex_entry None)) (audience (ex_entry None))) =
      ''@@auth0spajs@@::c1::aud1::read write''"
    by (simp add: toKey_def new_CacheKey_def ex_entry_def)
  have h: "keyManifest (ex_empty False False) \<noteq> Some ''@@auth0spajs@@::c1::aud1::read write''"
    by (simp add: ex_empty_def new_CacheManager_def ex_manifestKeyFrom_def)
  have m: "min (50000 div 1000 + expires_in (ex_entry None)) (claims_exp (ex_entry None)) = 100"
    by (simp add: ex_entry_def)
  from set_entry_expiresAt [of 50000 "ex_entry None" "ex_empty False False" "''@@auth0spajs@@''"] h
  show ?thesis
    unfolding k m by simp
qed

text \<open>
  Claim C7. For a manager built over a backend without \<open>allKeys\<close>, \<open>set\<close> stores
  the wrapped entry under the key derived from the entry's client id, scope and audience
  and registers that key: the keys the manifest tracks afterwards are those it tracked
  before and the derived key, one key more, or as many when the key was tracked already.
  The manifest keeps its record in the same backend under a key of its own, from which the
  derived key is taken to differ.
\<close>

theorem set_entry_registers_key:
  assumes "\<not> has_allKeys c"
    and "toKey (new_CacheKey pfx (client_id entry) (scope entry) (audience entry)) \<noteq>
      manifestKeyFrom clientId"
  shows "cache_get
        (cache (set_entry pfx (new_CacheManager manifestKeyFrom c clientId) entry now_ms))
        (toKey (new_CacheKey pfx (client_id entry) (scope entry) (audience entry))) =
      Some (Wrapped (wrapCacheEntry now_ms entry)) \<and>
    manifest_tracked (set_entry pfx (new_CacheManager manifestKeyFrom c clientId) entry now_ms) =
      insert (toKey (new_CacheKey pfx (client_id entry) (scope entry) (audience entry)))
        (manifest_tracked (new_CacheManager manifestKeyFrom c clientId)) \<and>
    card (manifest_tracked
        (set_entry pfx (new_CacheManager manifestKeyFrom c clientId) entry now_ms)) =
      (if toKey (new_CacheKey pfx (client_id entry) (scope entry) (audience entry))
            \<in> manifest_tracked (new_CacheManager manifestKeyFrom c clientId)
       then card (manifest_tracked (new_CacheManager manifestKeyFrom c clientId))
       else card (manifest_tracked (new_CacheManager manifestKeyFrom c clientId)) + 1)"
proof -
  let ?k = "toKey (new_CacheKey pfx (client_id entry) (scope entry) (audience entry))"
  let ?mk = "manifestKeyFrom clientId"
  let ?M = "new_CacheManager manifestKeyFrom c clientId"
  let ?M' = "set_entry pfx ?M entry now_ms"
  from assms(1) have km: "keyManifest ?M = Some ?mk" and cm: "cache ?M = c"
    by (simp_all add: new_CacheManager_def)
  have M': "?M' = ?M\<lparr>cache :=
      manifest_add (cache_set c ?k (Wrapped (wrapCacheEntry now_ms entry))) ?mk ?k\<rparr>"
    by (simp add: set_entry_def keyManifest_add_def Let_def km cm)
  have stored: "cache_get (cache ?M') ?k = Some (Wrapped (wrapCacheEntry now_ms entry))"
    using assms(2) by (simp add: M' cache_get_manifest_add_other)
  have before: "manifest_tracked ?M = set (manifest_keys c ?mk)"
    by (simp add: manifest_tracked_def km cm)
  have "manifest_tracked ?M' =
      set (manifest_keys
        (manifest_add (cache_set c ?k (Wrapped (wrapCacheEntry now_ms entry))) ?mk ?k) ?mk)"
    by (simp add: manifest_tracked_def M' km)
  also have "\<dots> = insert ?k (set (manifest_keys c ?mk))"
    using assms(2) by (simp add: manifest_keys_add manifest_keys_set_other)
  finally have tracked: "manifest_tracked ?M' = insert ?k (manifest_tracked ?M)"
    by (simp add: before)
  have "finite (manifest_tracked ?M)"
    by (simp add: before)
  then have "card (insert ?k (manifest_tracked ?M)) =
      (if ?k \<in> manifest_tracked ?M then card (manifest_tracked ?M)
       else card (manifest_tracked ?M) + 1)"
    by (simp add: insert_absorb)
  with stored tracked show ?thesis by simp
qed

theorem set_entry_registers_key_witness:
  "\<not> has_allKeys \<lparr>entries = [], objects = [], has_allKeys = False, shares = False\<rparr> \<and>
   ''@@auth0spajs@@::c1::aud1::read write'' \<noteq> ex_manifestKeyFrom ''c1'' \<and>
   cache_get (cache (ex_stored False False None)) ''@@auth0spajs@@::c1::aud1::read write'' =
      Some (Wrapped (ex_wrapped None)) \<and>
   manifest_tracked (ex_stored False False None) = {''@@auth0spajs@@::c1::aud1::read write''} \<and>
   card (manifest_tracked (ex_stored False False None)) = 1"
proof -
  let ?c0 = "\<lparr>entries = [], objects = [], has_allKeys = False, shares = False\<rparr>"
  have k: "toKey (new_CacheKey ''@@auth0spajs@@'' (client_id (ex_entry None))
      (scope (ex_entry None)) (audience (ex_entry None))) =
      ''@@auth0spajs@@::c1::aud1::read write''"
    by (simp add: toKey_def new_CacheKey_def ex_entry_def)
  have h1: "\<not> has_allKeys ?c0"
    by simp
  have h2: "''@@auth0spajs@@::c1::aud1::read write'' \<noteq> ex_manifestKeyFrom ''c1''"
    by (simp add: ex_manifestKeyFrom_def)
  have e: "manifest_tracked (new_CacheManager ex_manifestKeyFrom ?c0 ''c1'') = {}"
    by (simp add: manifest_tracked_def new_CacheManager_def manifest_keys_def manifest_get_def
        cache_get_def)
  from set_entry_registers_key [of ?c0 "''@@auth0spajs@@''" "ex_entry None"
      ex_manifestKeyFrom "''c1''" 40000]
    h1 h2
  show ?thesis
    unfolding k e by (simp add: ex_stored_def ex_empty_def ex_wrapped_def)
qed

subsection \<open>Clearing\<close>

lemma getCacheKeys_None_manifest:
  "getCacheKeys M = None \<Longrightarrow> manifest_tracked M = {}"
  by (auto simp: getCacheKeys_def manifest_tracked_def manifest_keys_def
      split: option.splits stored.splits)

lemma manifest_tracked_no_record:
  "keyManifest M = Some mk \<Longrightarrow> cache_get (cache M) mk = None \<Longrightarrow>
   getCacheKeys M = None \<and> manifest_tracked M = {}"
  by (simp add: getCacheKeys_def manifest_tracked_def manifest_keys_def manifest_get_def)

text \<open>
  Claim C8. From any state, \<open>clear\<close> removes every enumerated key from the backend and
  then clears the manifest: afterwards the backend holds no record under any key that was
  enumerated, and with a manifest its record is gone, so that it enumerates and tracks
  nothing.
\<close>

theorem clear_removes_enumerated_keys:
  "(\<forall>keys. getCacheKeys M = Some keys \<longrightarrow>
      (\<forall>k \<in> set keys. cache_get (cache (clear M)) k = None)) \<and>
   (\<forall>mk. keyManifest M = Some mk \<longrightarrow>
      getCacheKeys (clear M) = None \<and> manifest_tracked (clear M) = {}) \<and>
   (\<forall>mk keys. keyManifest M = Some mk \<and> getCacheKeys M = Some keys \<longrightarrow>
      cache_get (cache (clear M)) mk = None)"
proof (cases "getCacheKeys M")
  case None
  then have "clear M = M" by (simp add: clear_def)
  with None show ?thesis by (simp add: getCacheKeys_None_manifest)
next
  case (Some keys)
  let ?M1 = "M\<lparr>cache := foldl cache_remove (cache M) keys\<rparr>"
  from Some have c: "clear M = keyManifest_clear ?M1" by (simp add: clear_def)
  have removed: "cache_get (cache (clear M)) k = None" if "k \<in> set keys" for k
    using that unfolding c
    by (cases "keyManifest M")
      (simp_all add: keyManifest_clear_def manifest_clear_def cache_get_foldl_remove)
  have no_record: "cache_get (cache (clear M)) mk = None \<and> keyManifest (clear M) = Some mk"
    if "keyManifest M = Some mk" for mk
    using that unfolding c by (simp add: keyManifest_clear_def manifest_clear_def)
  from Some removed no_record show ?thesis
    by (auto dest: manifest_tracked_no_record)
qed

theorem clear_removes_enumerated_keys_witness:
  "getCacheKeys (ex_stored False False (Some ''r1'')) = Some [''@@auth0spajs@@::c1::aud1::read write''] \<and>
   keyManifest (ex_stored False False (Some ''r1'')) = Some ''@@auth0spajs@@::c1'' \<and>
   cache_get (cache (ex_stored False False (Some ''r1''))) ''@@auth0spajs@@::c1::aud1::read write'' = Some (Wrapped (ex_wrapped (Some ''r1''))) \<and>
   cache_get (cache (clear (ex_stored False False (Some ''r1'')))) ''@@auth0spajs@@::c1::aud1::read write'' = None \<and>
   cache_get (cache (clear (ex_stored False False (Some ''r1'')))) ''@@auth0spajs@@::c1'' = None \<and>
   getCacheKeys (clear (ex_stored False False (Some ''r1''))) = None"
proof -
  have h1: "getCacheKeys (ex_stored False False (Some ''r1'')) = Some [''@@auth0spajs@@::c1::aud1::read write'']"
    by code_simp
  have h2: "keyManifest (ex_stored False False (Some ''r1'')) = Some ''@@auth0spajs@@::c1''"
    by code_simp
  have h3: "cache_get (cache (ex_stored False False (Some ''r1''))) ''@@auth0spajs@@::c1::aud1::read write'' =
      Some (Wrapped (ex_wrapped (Some ''r1'')))"
    by code_simp
  from clear_removes_enumerated_keys [of "ex_stored False False (Some ''r1'')"] h1 h2 h3
  show ?thesis
    by simp
qed

end
